theory Spec2Isabelle
  imports Main
begin

section \<open>Data model of the chat client\<close>

text \<open>
  The repository holds three versions of the client: the two versions of
  \<^verbatim>\<open>http-chat-client.go\<close> (called the first and the second variant below) and the later
  package \<^verbatim>\<open>pkg/client\<close>. A function of the client without a suffix embeds the first
  variant; a name ending in \<^verbatim>\<open>2\<close> or \<^verbatim>\<open>ForChannel\<close> embeds the second variant; the
  names starting with \<^verbatim>\<open>client_\<close>, and \<^verbatim>\<open>HandlerGetUsers\<close> and
  \<^verbatim>\<open>HandlerSendMessage\<close>, embed the package, whose variables \<^verbatim>\<open>Config\<close> and
  \<^verbatim>\<open>EnvVarUserName\<close> are the variables \<^verbatim>\<open>cfg\<close> and \<^verbatim>\<open>envVarUserName\<close> of the variants.

  Go strings are byte sequences, modelled as \<^typ>\<open>string\<close>. A \<^verbatim>\<open>time.Time\<close> is a
  constructor over the instant (nanoseconds since January 1, year 1, 00:00 UTC) and
  the zone name and offset in seconds; its zero value is the instant 0 in UTC.
\<close>

datatype Time = Time (instant: int) (zoneName: string) (zoneOffset: int)

definition zeroTime :: Time where
  "zeroTime = Time 0 ''UTC'' 0"

record Message =
  Username :: string
  Message :: string
  TimeSent :: Time

record User =
  Username :: string
  LastPing :: Time

record Ping =
  Username :: string
  TimeSent :: Time

record ChatConfig =
  ChatServerFQDN :: string
  ChatServerPort :: int
  WebServerPortNumber :: int

definition formKeyMessage :: string where
  "formKeyMessage = ''message''"

definition defaultHTTPChatServer :: string where
  "defaultHTTPChatServer = ''chat.server.net''"

definition defaultHTTPChatPort :: int where
  "defaultHTTPChatPort = 8080"

definition defaultWebServerPortNumber :: int where
  "defaultWebServerPortNumber = 99"

text \<open>
  How a call can end without returning: a run-time panic (here always the dereference
  of a nil pointer), or the end of the process by \<^verbatim>\<open>log.Fatal\<close>, which logs and calls
  \<^verbatim>\<open>os.Exit(1)\<close>.
\<close>

datatype fault = Panic | Exit

section \<open>Formatting\<close>

text \<open>
  The verb \<^verbatim>\<open>%d\<close> of \<^verbatim>\<open>fmt.Sprintf\<close> on an \<^verbatim>\<open>int\<close>: the decimal digits, most
  significant first, each taken from the table of the ten digits, after a minus sign
  for a negative number. The verb \<^verbatim>\<open>%s\<close> on a
  string copies its bytes.
\<close>

definition digit :: "nat \<Rightarrow> char" where
  "digit d = ''0123456789'' ! d"

fun natToDec :: "nat \<Rightarrow> string" where
  "natToDec n =
     (if n < 10 then [digit n]
      else natToDec (n div 10) @ [digit (n mod 10)])"

declare natToDec.simps [simp del]

definition Sprintf_d :: "int \<Rightarrow> string" where
  "Sprintf_d i = (if i < 0 then ''-'' @ natToDec (nat (- i)) else natToDec (nat i))"

text \<open>
  \<^verbatim>\<open>strings.Join(elems, sep)\<close>: the empty string for no element, the element itself
  for one, and otherwise a builder that receives the first element and then, for each
  later element, the separator and the element.
\<close>

fun Join :: "string list \<Rightarrow> string \<Rightarrow> string" where
  "Join [] sep = ''''"
| "Join [e] sep = e"
| "Join (e # es) sep = foldl (\<lambda>b s. b @ sep @ s) e es"

section \<open>The remote backend\<close>

text \<open>
  A request handed to the HTTP client carries the body before marshalling: the struct
  that \<^verbatim>\<open>json.Marshal\<close> receives (\<open>requestBody\<close> below gives the JSON document
  that is posted for it). A response body is represented by what
  \<^verbatim>\<open>json.NewDecoder(body).Decode\<close> makes of it for each target type: the slice it
  leaves in the target (empty for nil) and whether it returns an error. The decoder
  can leave elements in the target and still return an error. A \<^verbatim>\<open>[]*User\<close> may
  hold nil pointers, so its elements are options.
\<close>

datatype payload = NoPayload | MessageJSON Message | PingJSON Ping

record Request =
  Method :: string
  URL :: string
  ContentType :: string
  Payload :: payload

record Body =
  asMessages :: "Message list \<times> bool"
  asUsers :: "User option list \<times> bool"

record Response =
  StatusCode :: int
  Body :: Body

text \<open>
  The process state: the two package variables, the wall clock, the requests handed
  to the HTTP client so far (oldest first), and the backend, which decides the result
  of a round trip from the requests so far: the pair \<^verbatim>\<open>(resp, err)\<close> of
  \<^verbatim>\<open>httpClient.Get\<close> and \<^verbatim>\<open>httpClient.Post\<close>, with \<^term>\<open>None\<close> for a nil response and
  \<^term>\<open>True\<close> for a non-nil error.
\<close>

record World =
  cfg :: "ChatConfig option"
  envVarUserName :: string
  clock :: Time
  outbound :: "Request list"
  backend :: "Request list \<Rightarrow> Response option \<times> bool"

definition roundTrip :: "Request \<Rightarrow> World \<Rightarrow> World \<times> Response option \<times> bool" where
  "roundTrip req w =
     (let sent = outbound w @ [req] in (w\<lparr>outbound := sent\<rparr>, backend w sent))"

definition Get :: "string \<Rightarrow> World \<Rightarrow> World \<times> Response option \<times> bool" where
  "Get url w =
     roundTrip \<lparr>Method = ''GET'', URL = url, ContentType = '''', Payload = NoPayload\<rparr> w"

definition Post :: "string \<Rightarrow> string \<Rightarrow> payload \<Rightarrow> World \<Rightarrow> World \<times> Response option \<times> bool" where
  "Post url contentType body w =
     roundTrip \<lparr>Method = ''POST'', URL = url, ContentType = contentType, Payload = body\<rparr> w"

text \<open>
  \<^verbatim>\<open>fmt.Sprintf("http://%s:%d/...", cfg.ChatServerFQDN, cfg.ChatServerPort)\<close>, with the
  path as third argument.
\<close>

definition endpointURL :: "ChatConfig \<Rightarrow> string \<Rightarrow> string" where
  "endpointURL c path =
     ''http://'' @ ChatServerFQDN c @ '':'' @ Sprintf_d (ChatServerPort c) @ path"

section \<open>The messages view\<close>

text \<open>
  \<^verbatim>\<open>getMessages\<close> of the first variant. An error of the round trip, a status other
  than 200 and a decoding error are logged and the function goes on. With a nil
  response, \<^verbatim>\<open>defer resp.Body.Close()\<close> dereferences nil and panics. A nil \<^verbatim>\<open>cfg\<close>
  panics when the URL is built.
\<close>

definition getMessages :: "World \<Rightarrow> World \<times> (fault + Message list)" where
  "getMessages w =
     (case cfg w of
        None \<Rightarrow> (w, Inl Panic)
      | Some c \<Rightarrow>
          (case Get (endpointURL c ''/messages'') w of
             (w', None, err) \<Rightarrow> (w', Inl Panic)
           | (w', Some resp, err) \<Rightarrow> (w', Inr (fst (asMessages (Body resp))))))"

text \<open>
  The loop \<^verbatim>\<open>for idx, msg := range ...\<close> of the handler: the index, the messages
  still to visit, and the slice \<^verbatim>\<open>messages\<close> built so far by \<^verbatim>\<open>append\<close>.
\<close>

fun rangeMessages :: "nat \<Rightarrow> Message list \<Rightarrow> string list \<Rightarrow> string list" where
  "rangeMessages idx [] messages = messages"
| "rangeMessages idx (msg # rest) messages =
     rangeMessages (Suc idx) rest
       (messages @ [''('' @ Sprintf_d (int idx) @ '')['' @ Message.Username msg @ ''] ''
                    @ Message.Message msg])"

definition handlerGetMessages_content :: "Message list \<Rightarrow> string" where
  "handlerGetMessages_content msgs =
     ''<!doctype html><html itemscope=\"\" itemtype=\"http://schema.org/WebPage\" lang=\"en\">\<newline>''
     @ [CHR 0x09] @ ''<head><title>smirc: messages</title><meta http-equiv=\"refresh\" content=\"1\"></head>\<newline>''
     @ ''    <body>'' @ Join (rangeMessages 0 msgs []) ''<br/>'' @ ''</body></html>''"

text \<open>
  What a handler leaves on the \<^verbatim>\<open>http.ResponseWriter\<close>: a redirect with its
  location and status code, or the document written by \<^verbatim>\<open>fmt.Fprintf(w, "%s", content)\<close>.
\<close>

datatype reply = Redirect string int | Written string

definition handlerGetMessages :: "World \<Rightarrow> World \<times> (fault + reply)" where
  "handlerGetMessages w =
     (case getMessages w of
        (w', Inl f) \<Rightarrow> (w', Inl f)
      | (w', Inr msgs) \<Rightarrow> (w', Inr (Written (handlerGetMessages_content msgs))))"

text \<open>The same handler in the second variant, from its own lines of the source.\<close>

fun rangeMessagesForChannel :: "nat \<Rightarrow> Message list \<Rightarrow> string list \<Rightarrow> string list" where
  "rangeMessagesForChannel idx [] messages = messages"
| "rangeMessagesForChannel idx (msg # rest) messages =
     rangeMessagesForChannel (Suc idx) rest
       (messages @ [''('' @ Sprintf_d (int idx) @ '')['' @ Message.Username msg @ ''] ''
                    @ Message.Message msg])"

definition handlerGetMessagesForChannel_content :: "Message list \<Rightarrow> string" where
  "handlerGetMessagesForChannel_content msgs =
     ''<!doctype html><html itemscope=\"\" itemtype=\"http://schema.org/WebPage\" lang=\"en\">\<newline>''
     @ [CHR 0x09] @ ''<head><title>smirc: messages</title><meta http-equiv=\"refresh\" content=\"1\"></head>\<newline>''
     @ ''    <body>'' @ Join (rangeMessagesForChannel 0 msgs []) ''<br/>'' @ ''</body></html>''"

definition getMessages2 :: "World \<Rightarrow> World \<times> (fault + Message list)" where
  "getMessages2 w =
     (case cfg w of
        None \<Rightarrow> (w, Inl Panic)
      | Some c \<Rightarrow>
          (case Get (endpointURL c ''/messages'') w of
             (w', resp, True) \<Rightarrow> (w', Inl Exit)
           | (w', None, False) \<Rightarrow> (w', Inl Panic)
           | (w', Some resp, False) \<Rightarrow>
               if StatusCode resp \<noteq> 200 then (w', Inl Exit)
               else (case asMessages (Body resp) of
                       (messages, True) \<Rightarrow> (w', Inl Exit)
                     | (messages, False) \<Rightarrow> (w', Inr messages))))"

definition handlerGetMessagesForChannel :: "World \<Rightarrow> World \<times> (fault + reply)" where
  "handlerGetMessagesForChannel w =
     (case getMessages2 w of
        (w', Inl f) \<Rightarrow> (w', Inl f)
      | (w', Inr msgs) \<Rightarrow> (w', Inr (Written (handlerGetMessagesForChannel_content msgs))))"

text \<open>
  \<^verbatim>\<open>getMessages\<close> of the package \<^verbatim>\<open>pkg/client\<close>: each failure is logged and the
  function returns \<^verbatim>\<open>messages\<close> as it stands, which is nil before the decoder ran.
\<close>

definition client_getMessages :: "World \<Rightarrow> World \<times> (fault + Message list)" where
  "client_getMessages w =
     (case cfg w of
        None \<Rightarrow> (w, Inl Panic)
      | Some c \<Rightarrow>
          (case Get (endpointURL c ''/messages'') w of
             (w', resp, True) \<Rightarrow> (w', Inr [])
           | (w', None, False) \<Rightarrow> (w', Inl Panic)
           | (w', Some resp, False) \<Rightarrow>
               if StatusCode resp \<noteq> 200 then (w', Inr [])
               else (w', Inr (fst (asMessages (Body resp))))))"

section \<open>The users view\<close>

text \<open>
  \<^verbatim>\<open>getActiveUsers\<close> of the first variant has the shape of \<^verbatim>\<open>getMessages\<close>. The
  handler formats \<^verbatim>\<open>user.LastPing\<close> with the verb \<^verbatim>\<open>%s\<close>, which prints
  \<^verbatim>\<open>Time.String()\<close>; that method of the standard library is the parameter \<open>ts\<close>.
  An element that is a nil pointer panics when the handler reads its fields.
\<close>

definition getActiveUsers :: "World \<Rightarrow> World \<times> (fault + User option list)" where
  "getActiveUsers w =
     (case cfg w of
        None \<Rightarrow> (w, Inl Panic)
      | Some c \<Rightarrow>
          (case Get (endpointURL c ''/users'') w of
             (w', None, err) \<Rightarrow> (w', Inl Panic)
           | (w', Some resp, err) \<Rightarrow> (w', Inr (fst (asUsers (Body resp))))))"

fun rangeUsers ::
  "(Time \<Rightarrow> string) \<Rightarrow> nat \<Rightarrow> User option list \<Rightarrow> string list \<Rightarrow> fault + string list" where
  "rangeUsers ts idx [] users = Inr users"
| "rangeUsers ts idx (None # rest) users = Inl Panic"
| "rangeUsers ts idx (Some user # rest) users =
     rangeUsers ts (Suc idx) rest
       (users @ [''('' @ Sprintf_d (int idx) @ '')['' @ ts (LastPing user) @ ''] ''
                 @ User.Username user])"

definition handlerGetUsers :: "(Time \<Rightarrow> string) \<Rightarrow> World \<Rightarrow> World \<times> (fault + reply)" where
  "handlerGetUsers ts w =
     (case getActiveUsers w of
        (w', Inl f) \<Rightarrow> (w', Inl f)
      | (w', Inr us) \<Rightarrow>
          (case rangeUsers ts 0 us [] of
             Inl f \<Rightarrow> (w', Inl f)
           | Inr users \<Rightarrow>
               (w', Inr (Written (
                  ''<!doctype html><html itemscope=\"\" itemtype=\"http://schema.org/WebPage\" lang=\"en\">\<newline>''
                  @ [CHR 0x09] @ ''<head><title>smirc: users</title><meta http-equiv=\"refresh\" content=\"5\"></head>\<newline>    <body><strong>Users:</strong><br/> ''
                  @ Join users ''<br/>'' @ ''</body></html>'')))))"

text \<open>
  The users view of the package \<^verbatim>\<open>pkg/client\<close>. Its line format has no timestamp.
  The embedded file \<^verbatim>\<open>style.css\<close> is not among the sources and is the parameter
  \<open>staticCSS\<close>.
\<close>

definition client_getActiveUsers :: "World \<Rightarrow> World \<times> (fault + User option list)" where
  "client_getActiveUsers w =
     (case cfg w of
        None \<Rightarrow> (w, Inl Panic)
      | Some c \<Rightarrow>
          (case Get (endpointURL c ''/users'') w of
             (w', resp, True) \<Rightarrow> (w', Inr [])
           | (w', None, False) \<Rightarrow> (w', Inl Panic)
           | (w', Some resp, False) \<Rightarrow>
               if StatusCode resp \<noteq> 200 then (w', Inr [])
               else (w', Inr (fst (asUsers (Body resp))))))"

fun client_rangeUsers :: "nat \<Rightarrow> User option list \<Rightarrow> string list \<Rightarrow> fault + string list" where
  "client_rangeUsers idx [] users = Inr users"
| "client_rangeUsers idx (None # rest) users = Inl Panic"
| "client_rangeUsers idx (Some user # rest) users =
     client_rangeUsers (Suc idx) rest
       (users @ [''('' @ Sprintf_d (int idx) @ '') '' @ User.Username user])"

definition getCSS :: "string \<Rightarrow> string" where
  "getCSS staticCSS = ''<style type=\"text/css\">'' @ staticCSS @ ''</style>''"

definition HandlerGetUsers :: "string \<Rightarrow> World \<Rightarrow> World \<times> (fault + reply)" where
  "HandlerGetUsers staticCSS w =
     (case client_getActiveUsers w of
        (w', Inl f) \<Rightarrow> (w', Inl f)
      | (w', Inr us) \<Rightarrow>
          (case client_rangeUsers 0 us [] of
             Inl f \<Rightarrow> (w', Inl f)
           | Inr users \<Rightarrow>
               (w', Inr (Written (
                  ''<!doctype html><html itemscope=\"\" itemtype=\"http://schema.org/WebPage\" lang=\"en\">\<newline>''
                  @ [CHR 0x09] @ ''<head><title>http-chat-client: users</title><meta http-equiv=\"refresh\" content=\"5\">''
                  @ getCSS staticCSS
                  @ ''</head>\<newline>    <body><div><strong>Users:</strong><br/> ''
                  @ Join users ''<br/>'' @ ''</div></body></html>'')))))"

section \<open>Sending a message\<close>

text \<open>
  \<^verbatim>\<open>sendMessage\<close> of the first variant. The struct literal names \<^verbatim>\<open>Username\<close> and
  \<^verbatim>\<open>Message\<close> only, so \<^verbatim>\<open>TimeSent\<close> is the zero value; the clock is not read. A failed
  post and a status other than 201 are logged; with a nil response,
  \<^verbatim>\<open>defer resp.Body.Close()\<close> panics.
\<close>

definition sendMessage :: "string \<Rightarrow> World \<Rightarrow> World \<times> (fault + unit)" where
  "sendMessage message w =
     (case cfg w of
        None \<Rightarrow> (w, Inl Panic)
      | Some c \<Rightarrow>
          (case Post (endpointURL c ''/messages'') ''application/json''
                  (MessageJSON \<lparr>Message.Username = envVarUserName w, Message = message,
                                TimeSent = zeroTime\<rparr>) w of
             (w', None, err) \<Rightarrow> (w', Inl Panic)
           | (w', Some resp, err) \<Rightarrow> (w', Inr ())))"

text \<open>
  The inbound request of the form handler: whether \<^verbatim>\<open>r.ParseForm()\<close> returns an
  error, and the values \<^verbatim>\<open>r.Form\<close> it leaves, a map from a key to its values.
  \<^verbatim>\<open>Values.Get\<close> is the first value of the key, or the empty string.
\<close>

record FormRequest =
  ParseFormError :: bool
  Form :: "string \<rightharpoonup> string list"

definition Values_Get :: "(string \<rightharpoonup> string list) \<Rightarrow> string \<Rightarrow> string" where
  "Values_Get v key =
     (case v key of None \<Rightarrow> '''' | Some [] \<Rightarrow> '''' | Some (x # xs) \<Rightarrow> x)"

definition handlerSendMessage :: "FormRequest \<Rightarrow> World \<Rightarrow> World \<times> (fault + reply)" where
  "handlerSendMessage r w =
     (if ParseFormError r then (w, Inr (Redirect ''/'' 302))
      else (case sendMessage (Values_Get (Form r) formKeyMessage) w of
              (w', Inl f) \<Rightarrow> (w', Inl f)
            | (w', Inr u) \<Rightarrow> (w', Inr (Redirect ''/'' 302))))"

text \<open>The same two functions in the package \<^verbatim>\<open>pkg/client\<close>, which return after logging.\<close>

definition client_sendMessage :: "string \<Rightarrow> World \<Rightarrow> World \<times> (fault + unit)" where
  "client_sendMessage message w =
     (case cfg w of
        None \<Rightarrow> (w, Inl Panic)
      | Some c \<Rightarrow>
          (case Post (endpointURL c ''/messages'') ''application/json''
                  (MessageJSON \<lparr>Message.Username = envVarUserName w, Message = message,
                                TimeSent = zeroTime\<rparr>) w of
             (w', resp, True) \<Rightarrow> (w', Inr ())
           | (w', None, False) \<Rightarrow> (w', Inl Panic)
           | (w', Some resp, False) \<Rightarrow> (w', Inr ())))"

definition HandlerSendMessage :: "FormRequest \<Rightarrow> World \<Rightarrow> World \<times> (fault + reply)" where
  "HandlerSendMessage r w =
     (if ParseFormError r then (w, Inr (Redirect ''/'' 302))
      else (case client_sendMessage (Values_Get (Form r) formKeyMessage) w of
              (w', Inl f) \<Rightarrow> (w', Inl f)
            | (w', Inr u) \<Rightarrow> (w', Inr (Redirect ''/'' 302))))"

section \<open>The heartbeat\<close>

text \<open>
  \<^verbatim>\<open>sendPing\<close> of the first variant sets \<^verbatim>\<open>Username\<close> only. The second variant
  writes the literal \<^verbatim>\<open>"Alice"\<close> and ends the process on every failure; it reads the
  port as \<^verbatim>\<open>cfg.Port\<close>, a field the struct does not declare, taken here as the
  struct's \<^verbatim>\<open>ChatServerPort\<close>.
\<close>

definition sendPing :: "World \<Rightarrow> World \<times> (fault + unit)" where
  "sendPing w =
     (case cfg w of
        None \<Rightarrow> (w, Inl Panic)
      | Some c \<Rightarrow>
          (case Post (endpointURL c ''/ping'') ''application/json''
                  (PingJSON \<lparr>Ping.Username = envVarUserName w, TimeSent = zeroTime\<rparr>) w of
             (w', None, err) \<Rightarrow> (w', Inl Panic)
           | (w', Some resp, err) \<Rightarrow> (w', Inr ())))"

definition sendPing2 :: "World \<Rightarrow> World \<times> (fault + unit)" where
  "sendPing2 w =
     (case cfg w of
        None \<Rightarrow> (w, Inl Panic)
      | Some c \<Rightarrow>
          (case Post (endpointURL c ''/ping'') ''application/json''
                  (PingJSON \<lparr>Ping.Username = ''Alice'', TimeSent = zeroTime\<rparr>) w of
             (w', resp, True) \<Rightarrow> (w', Inl Exit)
           | (w', None, False) \<Rightarrow> (w', Inl Panic)
           | (w', Some resp, False) \<Rightarrow>
               if StatusCode resp \<noteq> 201 then (w', Inl Exit) else (w', Inr ())))"

section \<open>The index page and the running process\<close>

definition endPointSendMessage :: string where
  "endPointSendMessage = ''/send-message''"

definition endPointGetMessages :: string where
  "endPointGetMessages = ''/get-messages''"

definition endPointGetUsers :: string where
  "endPointGetUsers = ''/get-users''"

definition handlerIndex :: "World \<Rightarrow> World \<times> (fault + reply)" where
  "handlerIndex w =
     (w, Inr (Written (
        ''<!doctype html><html itemscope=\"\" itemtype=\"http://schema.org/WebPage\" lang=\"en\">\<newline>''
        @ [CHR 0x09] @ ''<head><title>smirc is awesome</title></head><body>\<newline>      <table><tr><td>\<newline>      <iframe marginwidth=\"0\" marginheight=\"0\" width=\"480\" height=\"640\" scrolling=\"yes\" frameborder=0 src=\"''
        @ endPointGetMessages
        @ ''\">\<newline>      </iframe>\<newline>      </td><td>\<newline>      <iframe marginwidth=\"0\" marginheight=\"0\" width=\"480\" height=\"640\" scrolling=\"yes\" frameborder=0 src=\"''
        @ endPointGetUsers
        @ ''\">\<newline>      </iframe>\<newline>      </td></tr></table>\<newline>      <form action=\"''
        @ endPointSendMessage
        @ ''\">\<newline>        <input type=\"text\" id=\"''
        @ formKeyMessage
        @ ''\" name=\"''
        @ formKeyMessage
        @ ''\" />\<newline>        <input type=\"submit\" value=\"Send\" />\<newline>      </form></body></html>'')))"

text \<open>
  The routes registered by \<^verbatim>\<open>main\<close>: the three named paths, and \<^verbatim>\<open>"/"\<close>, which
  receives every other path. The path is the one the mux dispatches on; for a path
  that is not clean, such as \<^verbatim>\<open>//get-messages\<close>, the mux of the library answers with a
  redirect to the clean path and runs no handler, which leaves the process state as
  the index handler does.
\<close>

definition serveMux ::
  "(Time \<Rightarrow> string) \<Rightarrow> string \<Rightarrow> FormRequest \<Rightarrow> World \<Rightarrow> World \<times> (fault + reply)" where
  "serveMux ts path r w =
     (if path = endPointGetMessages then handlerGetMessages w
      else if path = endPointGetUsers then handlerGetUsers ts w
      else if path = endPointSendMessage then handlerSendMessage r w
      else handlerIndex w)"

text \<open>
  What happens after start-up: a browser request on a path, a tick of the 3000 ms
  ticker, or the passing of time. The server recovers a panic of a handler and goes on
  serving; a panic in the heartbeat goroutine ends the process, and the events after
  it do not happen.
\<close>

datatype event = Inbound string FormRequest | Tick | Elapse Time

fun run :: "(Time \<Rightarrow> string) \<Rightarrow> event list \<Rightarrow> World \<Rightarrow> World \<times> fault option" where
  "run ts [] w = (w, None)"
| "run ts (Inbound path r # es) w = run ts es (fst (serveMux ts path r w))"
| "run ts (Tick # es) w =
     (case sendPing w of
        (w', Inl f) \<Rightarrow> (w', Some f)
      | (w', Inr u) \<Rightarrow> run ts es w')"
| "run ts (Elapse t # es) w = run ts es (w\<lparr>clock := t\<rparr>)"

section \<open>Configuration\<close>

text \<open>
  The bytes of a file are represented by what \<^verbatim>\<open>encoding/json\<close> reads in them: no
  JSON value at all, or the value. A number keeps apart the literals that are plain
  integers, which alone fit a field of type \<^verbatim>\<open>int\<close>, from the literals with a
  fraction or an exponent.
\<close>

datatype json =
    JNull
  | JBool bool
  | JInt int
  | JFloat string
  | JString string
  | JArray "json list"
  | JObject "(string \<times> json) list"

datatype document = Malformed | Document json

text \<open>
  \<^verbatim>\<open>json.Unmarshal(data, &config)\<close> for the struct \<^verbatim>\<open>ChatConfig\<close>, after the
  documentation of the standard library. Malformed bytes are an error and leave the
  struct alone. The value \<^verbatim>\<open>null\<close> changes nothing. In an object the keys are
  visited in order; a key names a field when it equals the field's tag, letter case
  aside (the folding of the model covers the ASCII letters); other keys are skipped. A
  value of the wrong type for its field, or an integer outside 64 bits, leaves the
  field alone and is remembered as the error to return, and decoding goes on. Any
  other top-level value is an error.
\<close>

definition lowerASCII :: "char \<Rightarrow> char" where
  "lowerASCII c =
     (case map_of (zip ''ABCDEFGHIJKLMNOPQRSTUVWXYZ'' ''abcdefghijklmnopqrstuvwxyz'') c of
        None \<Rightarrow> c
      | Some l \<Rightarrow> l)"

fun storeString :: "json \<Rightarrow> string \<Rightarrow> string \<times> bool" where
  "storeString (JString s) old = (s, False)"
| "storeString JNull old = (old, False)"
| "storeString v old = (old, True)"

fun storeInt :: "json \<Rightarrow> int \<Rightarrow> int \<times> bool" where
  "storeInt (JInt n) old =
     (if - (2 ^ 63) \<le> n \<and> n < 2 ^ 63 then (n, False) else (old, True))"
| "storeInt JNull old = (old, False)"
| "storeInt v old = (old, True)"

fun unmarshalFields :: "(string \<times> json) list \<Rightarrow> ChatConfig \<times> bool \<Rightarrow> ChatConfig \<times> bool" where
  "unmarshalFields [] (config, err) = (config, err)"
| "unmarshalFields ((key, v) # rest) (config, err) =
     (let k = map lowerASCII key in
      if k = ''chat-server-fqdn'' then
        (case storeString v (ChatServerFQDN config) of
           (s, e) \<Rightarrow> unmarshalFields rest (config\<lparr>ChatServerFQDN := s\<rparr>, err \<or> e))
      else if k = ''chat-server-port'' then
        (case storeInt v (ChatServerPort config) of
           (n, e) \<Rightarrow> unmarshalFields rest (config\<lparr>ChatServerPort := n\<rparr>, err \<or> e))
      else if k = ''web-server-port-number'' then
        (case storeInt v (WebServerPortNumber config) of
           (n, e) \<Rightarrow> unmarshalFields rest (config\<lparr>WebServerPortNumber := n\<rparr>, err \<or> e))
      else unmarshalFields rest (config, err))"

fun Unmarshal :: "document \<Rightarrow> ChatConfig \<Rightarrow> ChatConfig \<times> bool" where
  "Unmarshal Malformed config = (config, True)"
| "Unmarshal (Document JNull) config = (config, False)"
| "Unmarshal (Document (JObject members)) config = unmarshalFields members (config, False)"
| "Unmarshal (Document v) config = (config, True)"

text \<open>
  \<^verbatim>\<open>readConfig\<close> of the first variant. The file system maps a path to the bytes of
  its file; \<^verbatim>\<open>os.ReadFile\<close> fails on a path without one. A read error reaches
  \<^verbatim>\<open>log.Fatal().Msgf\<close>, which ends the process; a parse error returns nil. The three
  tests on the parsed struct follow in the order of the source.
\<close>

definition readConfig :: "(string \<rightharpoonup> document) \<Rightarrow> string \<Rightarrow> fault + ChatConfig option" where
  "readConfig fs fileName =
     (case fs fileName of
        None \<Rightarrow> Inl Exit
      | Some data \<Rightarrow>
          (case Unmarshal data
                  \<lparr>ChatServerFQDN = defaultHTTPChatServer,
                   ChatServerPort = defaultHTTPChatPort,
                   WebServerPortNumber = defaultWebServerPortNumber\<rparr> of
             (config, True) \<Rightarrow> Inr None
           | (config, False) \<Rightarrow>
               (let config1 = (if ChatServerPort config = 0
                               then config\<lparr>ChatServerPort := defaultHTTPChatPort\<rparr>
                               else config);
                    config2 = (if ChatServerFQDN config1 = ''''
                               then config1\<lparr>ChatServerFQDN := defaultHTTPChatServer\<rparr>
                               else config1);
                    config3 = (if WebServerPortNumber config2 = 0
                               then config2\<lparr>WebServerPortNumber := defaultWebServerPortNumber\<rparr>
                               else config2)
                in Inr (Some config3))))"

text \<open>
  \<^verbatim>\<open>readConfig\<close> of the second variant starts from the zero struct and ends the
  process with \<^verbatim>\<open>log.Fatalf\<close> on a read error. Its first test reads \<^verbatim>\<open>config.Port\<close>,
  a field the struct does not declare, taken here as the struct's \<^verbatim>\<open>ChatServerPort\<close>.
\<close>

definition readConfig2 :: "(string \<rightharpoonup> document) \<Rightarrow> string \<Rightarrow> fault + ChatConfig option" where
  "readConfig2 fs fileName =
     (case fs fileName of
        None \<Rightarrow> Inl Exit
      | Some data \<Rightarrow>
          (case Unmarshal data
                  \<lparr>ChatServerFQDN = '''', ChatServerPort = 0, WebServerPortNumber = 0\<rparr> of
             (config, True) \<Rightarrow> Inr None
           | (config, False) \<Rightarrow>
               (let config1 = (if ChatServerPort config = 0
                               then config\<lparr>ChatServerPort := defaultHTTPChatPort\<rparr>
                               else config);
                    config2 = (if ChatServerFQDN config1 = ''''
                               then config1\<lparr>ChatServerFQDN := defaultHTTPChatServer\<rparr>
                               else config1);
                    config3 = (if WebServerPortNumber config2 = 0
                               then config2\<lparr>WebServerPortNumber := defaultWebServerPortNumber\<rparr>
                               else config2)
                in Inr (Some config3))))"

text \<open>
  \<^verbatim>\<open>readConfig\<close> of the package \<^verbatim>\<open>pkg/client\<close> returns the three defaults on a read
  error, and nil on a parse error.
\<close>

definition client_readConfig :: "(string \<rightharpoonup> document) \<Rightarrow> string \<Rightarrow> fault + ChatConfig option" where
  "client_readConfig fs fileName =
     (case fs fileName of
        None \<Rightarrow>
          Inr (Some \<lparr>ChatServerFQDN = defaultHTTPChatServer,
                     ChatServerPort = defaultHTTPChatPort,
                     WebServerPortNumber = defaultWebServerPortNumber\<rparr>)
      | Some data \<Rightarrow>
          (case Unmarshal data
                  \<lparr>ChatServerFQDN = '''', ChatServerPort = 0, WebServerPortNumber = 0\<rparr> of
             (config, True) \<Rightarrow> Inr None
           | (config, False) \<Rightarrow>
               (let config1 = (if ChatServerPort config = 0
                               then config\<lparr>ChatServerPort := defaultHTTPChatPort\<rparr>
                               else config);
                    config2 = (if ChatServerFQDN config1 = ''''
                               then config1\<lparr>ChatServerFQDN := defaultHTTPChatServer\<rparr>
                               else config1);
                    config3 = (if WebServerPortNumber config2 = 0
                               then config2\<lparr>WebServerPortNumber := defaultWebServerPortNumber\<rparr>
                               else config2)
                in Inr (Some config3))))"

text \<open>
  Start-up of the first variant, up to the call that serves: the two environment
  variables are read when the package is initialised (\<^verbatim>\<open>os.Getenv\<close> gives the empty
  string for an unset variable), \<^verbatim>\<open>main\<close> ends the process when one is empty, stores
  the result of \<^verbatim>\<open>readConfig\<close> in \<^verbatim>\<open>cfg\<close>, and reads \<^verbatim>\<open>cfg.WebServerPortNumber\<close> for
  the log line and the listening address, which panics on nil.
\<close>

definition envVarUserNameKey :: string where
  "envVarUserNameKey = ''HTTPCHAT_USERNAME''"

definition envVarConfigFileNameKey :: string where
  "envVarConfigFileNameKey = ''CONFIG_FILENAME''"

definition startup ::
  "(string \<Rightarrow> string) \<Rightarrow> (string \<rightharpoonup> document) \<Rightarrow> Time
     \<Rightarrow> (Request list \<Rightarrow> Response option \<times> bool) \<Rightarrow> fault + World" where
  "startup getenv fs now net =
     (if getenv envVarUserNameKey = '''' then Inl Exit
      else if getenv envVarConfigFileNameKey = '''' then Inl Exit
      else (case readConfig fs (getenv envVarConfigFileNameKey) of
              Inl f \<Rightarrow> Inl f
            | Inr None \<Rightarrow> Inl Panic
            | Inr (Some c) \<Rightarrow>
                Inr \<lparr>cfg = Some c, envVarUserName = getenv envVarUserNameKey, clock = now,
                     outbound = [], backend = net\<rparr>))"

section \<open>The JSON body of a post\<close>

text \<open>
  \<^verbatim>\<open>json.Marshal\<close> writes a string as a JSON string coerced to valid UTF-8: the
  encoder walks the bytes with \<^verbatim>\<open>utf8.DecodeRuneInString\<close> and writes the replacement
  character U+FFFD for every byte at which that function returns \<^verbatim>\<open>RuneError\<close> with
  size 1. \<open>DecodeRune_size\<close> is the size that function returns, with 0 standing for
  that error: one byte below \<^verbatim>\<open>0x80\<close>; otherwise the first byte gives the length of
  the encoding and the range of the second byte (\<open>firstByte\<close>, the tables \<^verbatim>\<open>first\<close>
  and \<^verbatim>\<open>acceptRanges\<close> of the package), and the later bytes lie between \<^verbatim>\<open>0x80\<close> and
  \<^verbatim>\<open>0xBF\<close>. The escapes the encoder writes for quotes, control characters and
  \<^verbatim>\<open><\<close>, \<^verbatim>\<open>>\<close>, \<^verbatim>\<open>&\<close> stand for the same characters, so the string that the body
  holds is \<open>coerceUTF8\<close> of the Go string. \<open>ValidString\<close> is \<^verbatim>\<open>utf8.ValidString\<close>.
\<close>

definition firstByte :: "nat \<Rightarrow> (nat \<times> nat \<times> nat) option" where
  "firstByte s0 =
     (if 194 \<le> s0 \<and> s0 \<le> 223 then Some (2, 128, 191)
      else if s0 = 224 then Some (3, 160, 191)
      else if 225 \<le> s0 \<and> s0 \<le> 236 then Some (3, 128, 191)
      else if s0 = 237 then Some (3, 128, 159)
      else if 238 \<le> s0 \<and> s0 \<le> 239 then Some (3, 128, 191)
      else if s0 = 240 then Some (4, 144, 191)
      else if 241 \<le> s0 \<and> s0 \<le> 243 then Some (4, 128, 191)
      else if s0 = 244 then Some (4, 128, 143)
      else None)"

definition continuationByte :: "char \<Rightarrow> bool" where
  "continuationByte b = (128 \<le> (of_char b :: nat) \<and> (of_char b :: nat) \<le> 191)"

definition DecodeRune_size :: "string \<Rightarrow> nat" where
  "DecodeRune_size s =
     (case s of
        [] \<Rightarrow> 0
      | s0 # rest \<Rightarrow>
          if (of_char s0 :: nat) < 128 then 1
          else (case firstByte (of_char s0) of
                  None \<Rightarrow> 0
                | Some (sz, lo, hi) \<Rightarrow>
                    if length s < sz then 0
                    else if (of_char (s ! 1) :: nat) < lo \<or> hi < (of_char (s ! 1) :: nat) then 0
                    else if sz \<le> 2 then 2
                    else if \<not> continuationByte (s ! 2) then 0
                    else if sz \<le> 3 then 3
                    else if \<not> continuationByte (s ! 3) then 0
                    else 4))"

fun coerceUTF8 :: "string \<Rightarrow> string" where
  "coerceUTF8 [] = []"
| "coerceUTF8 (b # rest) =
     (case DecodeRune_size (b # rest) of
        0 \<Rightarrow> [CHR 0xEF, CHR 0xBF, CHR 0xBD] @ coerceUTF8 rest
      | Suc k \<Rightarrow> (b # take k rest) @ coerceUTF8 (drop k rest))"

fun ValidString :: "string \<Rightarrow> bool" where
  "ValidString [] = True"
| "ValidString (b # rest) =
     (case DecodeRune_size (b # rest) of
        0 \<Rightarrow> False
      | Suc k \<Rightarrow> ValidString (drop k rest))"

text \<open>
  The JSON document that \<^verbatim>\<open>json.Marshal\<close> writes for the two structs: an object with
  the members in the order of the fields, under the names of the tags. A time is
  written by \<^verbatim>\<open>Time.MarshalJSON\<close> as a string; that method of the standard library is
  the parameter \<open>tj\<close>, which gives the text between the quotes. It fails only for a
  year outside 0 to 9999, which the zero time is not. The body of a request is the
  document of its payload; a \<^verbatim>\<open>GET\<close> has none.
\<close>

definition Marshal_Message :: "(Time \<Rightarrow> string) \<Rightarrow> Message \<Rightarrow> json" where
  "Marshal_Message tj m =
     JObject [(''username'', JString (coerceUTF8 (Message.Username m))),
              (''message'', JString (coerceUTF8 (Message.Message m))),
              (''timeSent'', JString (tj (Message.TimeSent m)))]"

definition Marshal_Ping :: "(Time \<Rightarrow> string) \<Rightarrow> Ping \<Rightarrow> json" where
  "Marshal_Ping tj p =
     JObject [(''username'', JString (coerceUTF8 (Ping.Username p))),
              (''timeSent'', JString (tj (Ping.TimeSent p)))]"

definition requestBody :: "(Time \<Rightarrow> string) \<Rightarrow> Request \<Rightarrow> json option" where
  "requestBody tj req =
     (case Payload req of
        NoPayload \<Rightarrow> None
      | MessageJSON m \<Rightarrow> Some (Marshal_Message tj m)
      | PingJSON p \<Rightarrow> Some (Marshal_Ping tj p))"

section \<open>Concrete inputs\<close>

text \<open>
  A configuration, two messages and two users, a backend that answers every \<^verbatim>\<open>GET\<close>
  with status 200 and a body holding both lists and every \<^verbatim>\<open>POST\<close> with status 201,
  a backend that cannot be reached, and a backend that answers status 500 with the same
  body. The clock of these worlds stands at a time after the zero time.
\<close>

definition demoConfig :: ChatConfig where
  "demoConfig =
     \<lparr>ChatServerFQDN = ''chat.server.net'', ChatServerPort = 8080, WebServerPortNumber = 99\<rparr>"

definition demoMessages :: "Message list" where
  "demoMessages =
     [\<lparr>Message.Username = ''alice'', Message = ''hello'', TimeSent = zeroTime\<rparr>,
      \<lparr>Message.Username = ''bob'', Message = ''hi'', TimeSent = zeroTime\<rparr>]"

definition demoUsers :: "User list" where
  "demoUsers =
     [\<lparr>User.Username = ''alice'', LastPing = zeroTime\<rparr>,
      \<lparr>User.Username = ''bob'', LastPing = zeroTime\<rparr>]"

definition demoBody :: Body where
  "demoBody = \<lparr>asMessages = (demoMessages, False), asUsers = (map Some demoUsers, False)\<rparr>"

definition demoBackend :: "Request list \<Rightarrow> Response option \<times> bool" where
  "demoBackend sent =
     (case rev sent of
        [] \<Rightarrow> (None, True)
      | r # earlier \<Rightarrow>
          if Method r = ''GET'' then (Some \<lparr>StatusCode = 200, Body = demoBody\<rparr>, False)
          else (Some \<lparr>StatusCode = 201, Body = \<lparr>asMessages = ([], True), asUsers = ([], True)\<rparr>\<rparr>,
                False))"

definition demoNow :: Time where
  "demoNow = Time 63900000000000000000 ''UTC'' 0"

definition demoWorld :: World where
  "demoWorld =
     \<lparr>cfg = Some demoConfig, envVarUserName = ''user1'', clock = demoNow, outbound = [],
      backend = demoBackend\<rparr>"

definition unreachableWorld :: World where
  "unreachableWorld = demoWorld\<lparr>backend := (\<lambda>sent. (None, True))\<rparr>"

definition failingWorld :: World where
  "failingWorld =
     demoWorld\<lparr>backend := (\<lambda>sent. (Some \<lparr>StatusCode = 500, Body = demoBody\<rparr>, False))\<rparr>"

definition helloRequest :: FormRequest where
  "helloRequest = \<lparr>ParseFormError = False, Form = [''message'' \<mapsto> [''hello'']]\<rparr>"

definition demoTimeString :: "Time \<Rightarrow> string" where
  "demoTimeString t = ''0001-01-01 00:00:00 +0000 UTC''"

definition demoTimeJSON :: "Time \<Rightarrow> string" where
  "demoTimeJSON t = ''0001-01-01T00:00:00Z''"

text \<open>The text \<^verbatim>\<open>a\<close>, the byte \<^verbatim>\<open>0xFF\<close>, \<^verbatim>\<open>b\<close>: the form value \<^verbatim>\<open>a%ffb\<close>.\<close>

definition invalidText :: string where
  "invalidText = [CHR ''a'', CHR 0xFF, CHR ''b'']"

definition demoFiles :: "string \<rightharpoonup> document" where
  "demoFiles =
     [''client.cfg'' \<mapsto> Document (JObject [(''chat-server-port'', JInt 9090)]),
      ''broken.cfg'' \<mapsto> Malformed]"

section \<open>Evaluating the formatting\<close>

lemma natToDec_digit: "n < 10 \<Longrightarrow> natToDec n = [digit n]"
  by (simp add: natToDec.simps)

lemma natToDec_step: "10 \<le> n \<Longrightarrow> natToDec n = natToDec (n div 10) @ [digit (n mod 10)]"
  by (subst natToDec.simps) simp

lemmas dec_eval = Sprintf_d_def natToDec_digit natToDec_step digit_def

lemma Sprintf_d_0: "Sprintf_d 0 = ''0''"
  by (simp add: dec_eval)

lemma Sprintf_d_1: "Sprintf_d 1 = ''1''"
  by (simp add: dec_eval)

lemma Sprintf_d_negative: "Sprintf_d (- 15) = ''-15''"
  by (simp add: dec_eval)

text \<open>The digits written for a number read back as that number.\<close>

lemma digit_value: "d < 10 \<Longrightarrow> of_char (digit d) = (48 + d :: nat)"
proof -
  assume "d < 10"
  then have "d \<in> {0, 1, 2, 3, 4, 5, 6, 7, 8, 9}" by auto
  then show ?thesis by (auto simp: digit_def)
qed

lemma natToDec_value:
  "foldl (\<lambda>a c. 10 * a + (of_char c - 48)) 0 (natToDec n) = n"
proof (induction n rule: natToDec.induct)
  case (1 n)
  show ?case
  proof (cases "n < 10")
    case True
    then show ?thesis by (simp add: natToDec_digit digit_value)
  next
    case False
    then have "natToDec n = natToDec (n div 10) @ [digit (n mod 10)]"
      by (simp add: natToDec_step)
    with False "1.IH" show ?thesis by (simp add: digit_value)
  qed
qed

lemma demoURL_messages:
  "endpointURL demoConfig ''/messages'' = ''http://chat.server.net:8080/messages''"
  by (simp add: endpointURL_def demoConfig_def dec_eval)

lemma demoURL_users:
  "endpointURL demoConfig ''/users'' = ''http://chat.server.net:8080/users''"
  by (simp add: endpointURL_def demoConfig_def dec_eval)


section \<open>Evaluating the JSON encoding\<close>

lemmas utf8_eval = DecodeRune_size_def firstByte_def continuationByte_def

text \<open>A string of valid UTF-8 is written as it is.\<close>

lemma coerceUTF8_valid: "ValidString s \<Longrightarrow> coerceUTF8 s = s"
proof (induction s rule: coerceUTF8.induct)
  case 1
  show ?case by simp
next
  case (2 b rest)
  show ?case
  proof (cases "DecodeRune_size (b # rest)")
    case 0
    with "2.prems" show ?thesis by simp
  next
    case (Suc k)
    with "2.prems" have "ValidString (drop k rest)" by simp
    with "2.IH"(2) [OF Suc] Suc show ?thesis by simp
  qed
qed

lemma ValidString_hello: "ValidString ''hello''"
  by (simp add: utf8_eval)

text \<open>
  Two, three and four byte encodings are kept; a lone byte \<^verbatim>\<open>0xFF\<close>, a truncated
  encoding, a surrogate and an overlong encoding are replaced byte by byte.
\<close>

lemma coerceUTF8_multibyte:
  "coerceUTF8 [CHR 0xC3, CHR 0xA9, CHR 0xE2, CHR 0x82, CHR 0xAC, CHR 0xF0, CHR 0x9F, CHR 0x98, CHR 0x80]
     = [CHR 0xC3, CHR 0xA9, CHR 0xE2, CHR 0x82, CHR 0xAC, CHR 0xF0, CHR 0x9F, CHR 0x98, CHR 0x80]"
  by (simp add: utf8_eval)

lemma coerceUTF8_invalidText:
  "coerceUTF8 invalidText = [CHR ''a'', CHR 0xEF, CHR 0xBF, CHR 0xBD, CHR ''b'']"
  by (simp add: invalidText_def utf8_eval)

lemma coerceUTF8_truncated:
  "coerceUTF8 [CHR 0xE2, CHR 0x82] = [CHR 0xEF, CHR 0xBF, CHR 0xBD, CHR 0xEF, CHR 0xBF, CHR 0xBD]"
  by (simp add: utf8_eval)

lemma coerceUTF8_surrogate:
  "coerceUTF8 [CHR 0xED, CHR 0xA0, CHR 0x80]
     = [CHR 0xEF, CHR 0xBF, CHR 0xBD, CHR 0xEF, CHR 0xBF, CHR 0xBD, CHR 0xEF, CHR 0xBF, CHR 0xBD]"
  by (simp add: utf8_eval)

lemma coerceUTF8_overlong:
  "coerceUTF8 [CHR 0xC0, CHR 0x80] = [CHR 0xEF, CHR 0xBF, CHR 0xBD, CHR 0xEF, CHR 0xBF, CHR 0xBD]"
  by (simp add: utf8_eval)

section \<open>What a call changes in the process state\<close>

lemma roundTrip_world:
  "fst (roundTrip req w) = w\<lparr>outbound := outbound w @ [req]\<rparr>"
  by (simp add: roundTrip_def Let_def)

lemma Post_world:
  "fst (Post url ct body w) =
     w\<lparr>outbound := outbound w @
        [\<lparr>Method = ''POST'', URL = url, ContentType = ct, Payload = body\<rparr>]\<rparr>"
  by (simp add: Post_def roundTrip_world)

lemma Get_world:
  "fst (Get url w) =
     w\<lparr>outbound := outbound w @
        [\<lparr>Method = ''GET'', URL = url, ContentType = '''', Payload = NoPayload\<rparr>]\<rparr>"
  by (simp add: Get_def roundTrip_world)

lemma sendMessage_world:
  "fst (sendMessage text w) =
     (case cfg w of
        None \<Rightarrow> w
      | Some c \<Rightarrow>
          fst (Post (endpointURL c ''/messages'') ''application/json''
                 (MessageJSON \<lparr>Message.Username = envVarUserName w, Message = text,
                               TimeSent = zeroTime\<rparr>) w))"
  by (simp add: sendMessage_def split: option.splits prod.splits)

lemma sendPing_world:
  "fst (sendPing w) =
     (case cfg w of
        None \<Rightarrow> w
      | Some c \<Rightarrow>
          fst (Post (endpointURL c ''/ping'') ''application/json''
                 (PingJSON \<lparr>Ping.Username = envVarUserName w, TimeSent = zeroTime\<rparr>) w))"
  by (simp add: sendPing_def split: option.splits prod.splits)

lemma getMessages_world:
  "fst (getMessages w) =
     (case cfg w of None \<Rightarrow> w | Some c \<Rightarrow> fst (Get (endpointURL c ''/messages'') w))"
  by (simp add: getMessages_def split: option.splits prod.splits)

lemma getActiveUsers_world:
  "fst (getActiveUsers w) =
     (case cfg w of None \<Rightarrow> w | Some c \<Rightarrow> fst (Get (endpointURL c ''/users'') w))"
  by (simp add: getActiveUsers_def split: option.splits prod.splits)

lemma handlerGetMessages_world: "fst (handlerGetMessages w) = fst (getMessages w)"
  by (simp add: handlerGetMessages_def split: prod.splits sum.splits)

lemma handlerGetUsers_world: "fst (handlerGetUsers ts w) = fst (getActiveUsers w)"
  by (simp add: handlerGetUsers_def split: prod.splits sum.splits)

lemma handlerSendMessage_world:
  "fst (handlerSendMessage r w) =
     (if ParseFormError r then w else fst (sendMessage (Values_Get (Form r) formKeyMessage) w))"
  by (simp add: handlerSendMessage_def split: prod.splits sum.splits)

lemma handlerIndex_world: "fst (handlerIndex w) = w"
  by (simp add: handlerIndex_def)

section \<open>Properties of the messages view\<close>

lemma rangeMessages_zip:
  "rangeMessages k ms acc =
     acc @ map (\<lambda>(i, m). ''('' @ Sprintf_d (int i) @ '')['' @ Message.Username m @ ''] ''
                           @ Message.Message m)
             (zip [k..<k + length ms] ms)"
proof (induction ms arbitrary: k acc)
  case Nil
  show ?case by simp
next
  case (Cons m ms)
  have "[k..<k + Suc (length ms)] = k # [Suc k..<Suc k + length ms]"
    by (subst upt_rec) simp
  with Cons.IH [of "Suc k"] show ?case by simp
qed

lemma rangeMessages_nth:
  "rangeMessages 0 ms [] =
     map (\<lambda>i. ''('' @ Sprintf_d (int i) @ '')['' @ Message.Username (ms ! i) @ ''] ''
                 @ Message.Message (ms ! i))
         [0..<length ms]"
  unfolding rangeMessages_zip
  by (rule nth_equalityI) simp_all


lemma foldl_sep:
  "foldl (\<lambda>b s. b @ sep @ s) e es = e @ concat (map (\<lambda>s. sep @ s) es)"
  by (induction es arbitrary: e) simp_all

lemma Join_Cons: "Join (e # es) sep = e @ concat (map (\<lambda>s. sep @ s) es)"
  by (cases es) (simp_all add: foldl_sep)

text \<open>
  C1. Whatever list \<^verbatim>\<open>getMessages\<close> returns, the handler writes one line per
  message, the line at position \<open>i\<close> being \<^verbatim>\<open>(i)[username] message\<close> of the message at
  position \<open>i\<close> (counting from 0), the lines joined by \<^verbatim>\<open><br/>\<close> inside the
  self-refreshing document: every entry once, in the order received.
\<close>

theorem handlerGetMessages_renders_in_order:
  assumes "getMessages w = (w', Inr msgs)"
  shows "handlerGetMessages w =
     (w', Inr (Written (
        ''<!doctype html><html itemscope=\"\" itemtype=\"http://schema.org/WebPage\" lang=\"en\">\<newline>''
        @ [CHR 0x09] @ ''<head><title>smirc: messages</title><meta http-equiv=\"refresh\" content=\"1\"></head>\<newline>''
        @ ''    <body>''
        @ Join (map (\<lambda>i. ''('' @ Sprintf_d (int i) @ '')['' @ Message.Username (msgs ! i)
                              @ ''] '' @ Message.Message (msgs ! i))
                    [0..<length msgs]) ''<br/>''
        @ ''</body></html>'')))"
  using assms
  by (simp add: handlerGetMessages_def handlerGetMessages_content_def rangeMessages_nth)

lemma demo_getMessages:
  "getMessages demoWorld = (fst (getMessages demoWorld), Inr demoMessages)"
  by (simp add: getMessages_def Get_def roundTrip_def demoWorld_def demoBackend_def
      demoBody_def Let_def)

theorem handlerGetMessages_renders_in_order_witness:
  "snd (handlerGetMessages demoWorld) =
     Inr (Written (
        ''<!doctype html><html itemscope=\"\" itemtype=\"http://schema.org/WebPage\" lang=\"en\">\<newline>''
        @ [CHR 0x09] @ ''<head><title>smirc: messages</title><meta http-equiv=\"refresh\" content=\"1\"></head>\<newline>''
        @ ''    <body>(0)[alice] hello<br/>(1)[bob] hi</body></html>''))"
  using handlerGetMessages_renders_in_order [OF demo_getMessages]
  by (simp add: demoMessages_def Sprintf_d_0 Sprintf_d_1)


section \<open>Failures of the backend\<close>

text \<open>
  C2. With a backend that cannot be reached, \<^verbatim>\<open>httpClient.Get\<close> returns a nil
  response and an error; \<^verbatim>\<open>getMessages\<close> of the first variant logs the error and
  then panics on \<^verbatim>\<open>resp.Body\<close>, and so does the handler: no empty list is
  returned and no document is written.
\<close>

theorem getMessages_unreachable_backend:
  "snd (getMessages unreachableWorld) = Inl Panic \<and>
   snd (handlerGetMessages unreachableWorld) = Inl Panic"
  by (simp add: getMessages_def handlerGetMessages_def Get_def roundTrip_def
      unreachableWorld_def demoWorld_def Let_def)

text \<open>
  The same holds for every state with a configuration and a nil response. A status
  other than 200 is logged and the body is decoded all the same, and what the decoder
  left in the slice before an error is returned.
\<close>

lemma getMessages_nil_response:
  assumes "cfg w = Some c"
    and "fst (backend w (outbound w @
           [\<lparr>Method = ''GET'', URL = endpointURL c ''/messages'', ContentType = '''',
             Payload = NoPayload\<rparr>])) = None"
  shows "snd (getMessages w) = Inl Panic"
  using assms
  by (auto simp: getMessages_def Get_def roundTrip_def Let_def split: prod.splits option.splits)

lemma getMessages_status_500: "snd (getMessages failingWorld) = Inr demoMessages"
  by (simp add: getMessages_def Get_def roundTrip_def failingWorld_def demoWorld_def
      demoBody_def Let_def)

lemma getMessages_decode_error:
  "snd (getMessages (demoWorld\<lparr>backend := (\<lambda>sent.
      (Some \<lparr>StatusCode = 200,
             Body = \<lparr>asMessages = ([hd demoMessages], True), asUsers = ([], True)\<rparr>\<rparr>, False))\<rparr>))
   = Inr [hd demoMessages]"
  by (simp add: getMessages_def Get_def roundTrip_def demoWorld_def Let_def)

text \<open>
  \<^verbatim>\<open>getMessages\<close> of the package \<^verbatim>\<open>pkg/client\<close> returns after logging: the empty
  list for an error of the round trip and for a status other than 200.
\<close>

lemma client_getMessages_error:
  assumes "cfg w = Some c"
    and "snd (backend w (outbound w @
           [\<lparr>Method = ''GET'', URL = endpointURL c ''/messages'', ContentType = '''',
             Payload = NoPayload\<rparr>]))"
  shows "snd (client_getMessages w) = Inr []"
  using assms
  by (auto simp: client_getMessages_def Get_def roundTrip_def Let_def
      split: prod.splits option.splits bool.splits)

lemma client_getMessages_unreachable: "snd (client_getMessages unreachableWorld) = Inr []"
  by (simp add: client_getMessages_def Get_def roundTrip_def unreachableWorld_def
      demoWorld_def Let_def)

lemma client_getMessages_status_500: "snd (client_getMessages failingWorld) = Inr []"
  by (simp add: client_getMessages_def Get_def roundTrip_def failingWorld_def demoWorld_def
      Let_def)

text \<open>
  C3. A request with the form field \<^verbatim>\<open>message=hello\<close>, while the backend cannot be
  reached: \<^verbatim>\<open>sendMessage\<close> of the first variant hands the post to the HTTP client,
  logs its error and panics on \<^verbatim>\<open>resp.Body\<close>; the handler does not reach its
  redirect.
\<close>

theorem handlerSendMessage_unreachable_backend:
  "snd (handlerSendMessage helloRequest unreachableWorld) = Inl Panic"
  by (simp add: handlerSendMessage_def sendMessage_def Post_def roundTrip_def helloRequest_def
      unreachableWorld_def demoWorld_def Let_def)

text \<open>The same holds for every form that parses and every nil response to its post.\<close>

lemma handlerSendMessage_nil_response:
  assumes "\<not> ParseFormError r" and "cfg w = Some c"
    and "fst (backend w (outbound w @
           [\<lparr>Method = ''POST'', URL = endpointURL c ''/messages'',
             ContentType = ''application/json'',
             Payload = MessageJSON \<lparr>Message.Username = envVarUserName w,
                                    Message = Values_Get (Form r) ''message'',
                                    TimeSent = zeroTime\<rparr>\<rparr>])) = None"
  shows "snd (handlerSendMessage r w) = Inl Panic"
  using assms
  by (auto simp: handlerSendMessage_def sendMessage_def Post_def roundTrip_def Let_def
      formKeyMessage_def split: prod.splits option.splits)

text \<open>
  The rest of the handler does what the claim says: a form that fails to parse is
  redirected without a post; otherwise the field \<^verbatim>\<open>message\<close> is read, empty when
  absent, one message with the local identity and that text is posted, and any
  response of the backend, whatever its status, is followed by the redirect to
  \<^verbatim>\<open>/\<close>.
\<close>

lemma Values_Get_absent: "v key = None \<Longrightarrow> Values_Get v key = ''''"
  by (simp add: Values_Get_def)

lemma Values_Get_first: "v key = Some (x # xs) \<Longrightarrow> Values_Get v key = x"
  by (simp add: Values_Get_def)

lemma handlerSendMessage_parse_error:
  "ParseFormError r \<Longrightarrow> handlerSendMessage r w = (w, Inr (Redirect ''/'' 302))"
  by (simp add: handlerSendMessage_def)

lemma handlerSendMessage_posts:
  assumes "\<not> ParseFormError r" and "cfg w = Some c"
  shows "outbound (fst (handlerSendMessage r w)) =
     outbound w @
       [\<lparr>Method = ''POST'', URL = endpointURL c ''/messages'', ContentType = ''application/json'',
         Payload = MessageJSON \<lparr>Message.Username = envVarUserName w,
                                Message = Values_Get (Form r) ''message'',
                                TimeSent = zeroTime\<rparr>\<rparr>]"
  using assms
  by (simp add: handlerSendMessage_world sendMessage_world Post_world formKeyMessage_def)

lemma handlerSendMessage_redirects_on_response:
  assumes "cfg w = Some c"
    and "fst (backend w (outbound w @
           [\<lparr>Method = ''POST'', URL = endpointURL c ''/messages'',
             ContentType = ''application/json'',
             Payload = MessageJSON \<lparr>Message.Username = envVarUserName w,
                                    Message = Values_Get (Form r) ''message'',
                                    TimeSent = zeroTime\<rparr>\<rparr>])) = Some resp"
  shows "snd (handlerSendMessage r w) = Inr (Redirect ''/'' 302)"
  using assms
  by (auto simp: handlerSendMessage_def sendMessage_def Post_def roundTrip_def Let_def
      formKeyMessage_def split: prod.splits option.splits)

lemma HandlerSendMessage_unreachable:
  "snd (HandlerSendMessage helloRequest unreachableWorld) = Inr (Redirect ''/'' 302)"
  by (simp add: HandlerSendMessage_def client_sendMessage_def Post_def roundTrip_def
      helloRequest_def unreachableWorld_def demoWorld_def Let_def)

section \<open>The bodies of the posts\<close>

text \<open>
  C4, as amended. In a state with a configuration, \<^verbatim>\<open>sendMessage\<close> hands exactly one
  request to the HTTP client: a post to the messages endpoint. The struct it marshals
  has the local identity as \<^verbatim>\<open>Username\<close>, the submitted text as \<^verbatim>\<open>Message\<close>, and the
  zero time, not the time of sending, as \<^verbatim>\<open>TimeSent\<close>. The JSON body holds the
  identity and the text as \<^verbatim>\<open>json.Marshal\<close> writes strings, every invalid UTF-8 byte
  replaced by U+FFFD, so the \<^verbatim>\<open>message\<close> of the body is the submitted text itself
  when the text is valid UTF-8.
\<close>

theorem sendMessage_posts_once:
  assumes "cfg w = Some c"
  shows "outbound (fst (sendMessage text w)) =
     outbound w @
       [\<lparr>Method = ''POST'', URL = endpointURL c ''/messages'', ContentType = ''application/json'',
         Payload = MessageJSON \<lparr>Message.Username = envVarUserName w, Message = text,
                                TimeSent = zeroTime\<rparr>\<rparr>] \<and>
     requestBody tj (last (outbound (fst (sendMessage text w)))) =
       Some (JObject [(''username'', JString (coerceUTF8 (envVarUserName w))),
                      (''message'', JString (coerceUTF8 text)),
                      (''timeSent'', JString (tj zeroTime))]) \<and>
     (ValidString text \<longrightarrow> coerceUTF8 text = text)"
  using assms
  by (simp add: sendMessage_world Post_world requestBody_def Marshal_Message_def
      coerceUTF8_valid)

theorem sendMessage_posts_once_witness:
  "outbound (fst (sendMessage ''hello'' demoWorld)) =
     [\<lparr>Method = ''POST'', URL = ''http://chat.server.net:8080/messages'',
       ContentType = ''application/json'',
       Payload = MessageJSON \<lparr>Message.Username = ''user1'', Message = ''hello'',
                              TimeSent = Time 0 ''UTC'' 0\<rparr>\<rparr>] \<and>
   requestBody demoTimeJSON (last (outbound (fst (sendMessage ''hello'' demoWorld)))) =
     Some (JObject [(''username'', JString ''user1''), (''message'', JString ''hello''),
                    (''timeSent'', JString ''0001-01-01T00:00:00Z'')]) \<and>
   ValidString ''hello''"
proof -
  have c: "cfg demoWorld = Some demoConfig"
    by (simp add: demoWorld_def)
  have e: "envVarUserName demoWorld = ''user1''"
    by (simp add: demoWorld_def)
  have o: "outbound demoWorld = []"
    by (simp add: demoWorld_def)
  have u: "coerceUTF8 ''user1'' = ''user1''"
    by (simp add: utf8_eval)
  have h: "coerceUTF8 ''hello'' = ''hello''"
    by (rule coerceUTF8_valid [OF ValidString_hello])
  have d: "demoTimeJSON (Time 0 ''UTC'' 0) = ''0001-01-01T00:00:00Z''"
    by (simp add: demoTimeJSON_def)
  note t = sendMessage_posts_once [OF c, of "''hello''" demoTimeJSON,
      unfolded e o u h demoURL_messages zeroTime_def d append_Nil]
  show ?thesis
    using t ValidString_hello by blast
qed

text \<open>
  The claim as stated fails twice. The clock of the state stands after the zero
  time, and the struct posted for the text \<^verbatim>\<open>hello\<close> is not the one with the time of
  sending. And for the text \<^verbatim>\<open>a\<close>, \<^verbatim>\<open>0xFF\<close>, \<^verbatim>\<open>b\<close> the body does not hold that text as
  its \<^verbatim>\<open>message\<close>, whatever \<^verbatim>\<open>Time.MarshalJSON\<close> writes.
\<close>

theorem sendMessage_body_counterexample:
  "Payload (last (outbound (fst (sendMessage ''hello'' demoWorld)))) \<noteq>
     MessageJSON \<lparr>Message.Username = envVarUserName demoWorld, Message = ''hello'',
                  TimeSent = clock demoWorld\<rparr> \<and>
   (\<forall>tj. requestBody tj (last (outbound (fst (sendMessage invalidText demoWorld)))) \<noteq>
      Some (JObject [(''username'', JString ''user1''), (''message'', JString invalidText),
                     (''timeSent'', JString (tj zeroTime))]))"
  by (simp add: sendMessage_world Post_world demoWorld_def zeroTime_def demoNow_def
      requestBody_def Marshal_Message_def coerceUTF8_invalidText)
    (simp add: invalidText_def)




text \<open>The second variant posts the literal name, whatever the local identity is.\<close>

lemma sendPing2_posts_Alice:
  assumes "cfg w = Some c"
  shows "Payload (last (outbound (fst (sendPing2 w)))) =
     PingJSON \<lparr>Ping.Username = ''Alice'', TimeSent = zeroTime\<rparr>"
proof -
  have "fst (sendPing2 w) =
          fst (Post (endpointURL c ''/ping'') ''application/json''
                 (PingJSON \<lparr>Ping.Username = ''Alice'', TimeSent = zeroTime\<rparr>) w)"
    using assms
    by (simp add: sendPing2_def split: option.splits prod.splits bool.splits)
  then show ?thesis by (simp add: Post_world)
qed

text \<open>A tick of the heartbeat is one such post.\<close>

lemma run_tick:
  assumes "cfg w = Some c"
  shows "outbound (fst (run ts [Tick] w)) =
     outbound w @
       [\<lparr>Method = ''POST'', URL = endpointURL c ''/ping'', ContentType = ''application/json'',
         Payload = PingJSON \<lparr>Ping.Username = envVarUserName w, TimeSent = zeroTime\<rparr>\<rparr>]"
proof -
  have "fst (run ts [Tick] w) = fst (sendPing w)"
    by (simp split: prod.splits sum.splits)
  with assms show ?thesis by (simp add: sendPing_world Post_world)
qed

text \<open>The body of the ping holds the identity in the same encoding.\<close>

lemma sendPing_body:
  assumes "cfg w = Some c"
  shows "requestBody tj (last (outbound (fst (sendPing w)))) =
     Some (JObject [(''username'', JString (coerceUTF8 (envVarUserName w))),
                    (''timeSent'', JString (tj zeroTime))])"
  using assms
  by (simp add: sendPing_world Post_world requestBody_def Marshal_Ping_def)

section \<open>Loading the configuration\<close>

text \<open>Whether decoding fails depends on the bytes alone, not on the struct decoded into.\<close>

lemma storeString_err: "snd (storeString v a) = snd (storeString v b)"
  by (cases v) simp_all

lemma storeInt_err: "snd (storeInt v a) = snd (storeInt v b)"
  by (cases v) simp_all

lemma unmarshalFields_err:
  "snd (unmarshalFields ms (c, e)) = snd (unmarshalFields ms (c', e))"
proof (induction ms arbitrary: c c' e)
  case Nil
  show ?case by simp
next
  case (Cons m ms)
  obtain key v where m: "m = (key, v)" by (cases m)
  obtain s1 e1 where s1: "storeString v (ChatServerFQDN c) = (s1, e1)" by (cases "storeString v (ChatServerFQDN c)")
  obtain s2 e2 where s2: "storeString v (ChatServerFQDN c') = (s2, e2)" by (cases "storeString v (ChatServerFQDN c')")
  obtain p1 f1 where p1: "storeInt v (ChatServerPort c) = (p1, f1)" by (cases "storeInt v (ChatServerPort c)")
  obtain p2 f2 where p2: "storeInt v (ChatServerPort c') = (p2, f2)" by (cases "storeInt v (ChatServerPort c')")
  obtain q1 g1 where q1: "storeInt v (WebServerPortNumber c) = (q1, g1)" by (cases "storeInt v (WebServerPortNumber c)")
  obtain q2 g2 where q2: "storeInt v (WebServerPortNumber c') = (q2, g2)" by (cases "storeInt v (WebServerPortNumber c')")
  have "e1 = e2" using storeString_err [of v "ChatServerFQDN c" "ChatServerFQDN c'"] s1 s2 by simp
  moreover have "f1 = f2" using storeInt_err [of v "ChatServerPort c" "ChatServerPort c'"] p1 p2 by simp
  moreover have "g1 = g2" using storeInt_err [of v "WebServerPortNumber c" "WebServerPortNumber c'"] q1 q2 by simp
  ultimately show ?case
    using m s1 s2 p1 p2 q1 q2 Cons.IH by (simp add: Let_def)
qed

lemma Unmarshal_err: "snd (Unmarshal data c) = snd (Unmarshal data c')"
proof (cases data)
  case Malformed
  then show ?thesis by simp
next
  case (Document v)
  then show ?thesis by (cases v) (simp_all add: unmarshalFields_err)
qed

text \<open>
  C8. When the file is read and parses without error, \<^verbatim>\<open>readConfig\<close> returns the
  parsed struct with the host replaced by \<^verbatim>\<open>chat.server.net\<close> when empty, the remote
  port by 8080 when zero and the local port by 99 when zero; every other value is kept.
  The file that holds only \<^verbatim>\<open>{"chat-server-port": 9090}\<close> gives the default host, port
  9090 and local port 99.
\<close>

theorem readConfig_applies_defaults:
  assumes "fs fileName = Some data"
    and "Unmarshal data
           \<lparr>ChatServerFQDN = defaultHTTPChatServer, ChatServerPort = defaultHTTPChatPort,
            WebServerPortNumber = defaultWebServerPortNumber\<rparr> = (parsed, False)"
  shows "readConfig fs fileName =
     Inr (Some
       \<lparr>ChatServerFQDN =
          (if ChatServerFQDN parsed = '''' then ''chat.server.net'' else ChatServerFQDN parsed),
        ChatServerPort = (if ChatServerPort parsed = 0 then 8080 else ChatServerPort parsed),
        WebServerPortNumber =
          (if WebServerPortNumber parsed = 0 then 99 else WebServerPortNumber parsed)\<rparr>)"
  using assms
  by (simp add: readConfig_def Let_def defaultHTTPChatServer_def defaultHTTPChatPort_def
      defaultWebServerPortNumber_def)

theorem readConfig_applies_defaults_witness:
  "readConfig demoFiles ''client.cfg'' =
     Inr (Some \<lparr>ChatServerFQDN = ''chat.server.net'', ChatServerPort = 9090,
                WebServerPortNumber = 99\<rparr>)"
proof -
  have a: "demoFiles ''client.cfg'' =
             Some (Document (JObject [(''chat-server-port'', JInt 9090)]))"
    by (simp add: demoFiles_def)
  have b: "Unmarshal (Document (JObject [(''chat-server-port'', JInt 9090)]))
             \<lparr>ChatServerFQDN = defaultHTTPChatServer, ChatServerPort = defaultHTTPChatPort,
              WebServerPortNumber = defaultWebServerPortNumber\<rparr> =
           (\<lparr>ChatServerFQDN = ''chat.server.net'', ChatServerPort = 9090,
             WebServerPortNumber = 99\<rparr>, False)"
    by (simp add: lowerASCII_def Let_def defaultHTTPChatServer_def defaultHTTPChatPort_def
        defaultWebServerPortNumber_def)
  show ?thesis
    using a b
      readConfig_applies_defaults [of demoFiles "''client.cfg''"
        "Document (JObject [(''chat-server-port'', JInt 9090)])"
        "\<lparr>ChatServerFQDN = ''chat.server.net'', ChatServerPort = 9090,
          WebServerPortNumber = 99\<rparr>"]
    by simp
qed

text \<open>
  C5, as amended. When the file cannot be read, \<^verbatim>\<open>readConfig\<close> of both variants ends
  the process; when it is read and the bytes do not parse, both return nil. Neither
  falls back to the defaults.
\<close>

theorem readConfig_failure:
  "(fs fileName = None \<longrightarrow>
      readConfig fs fileName = Inl Exit \<and> readConfig2 fs fileName = Inl Exit) \<and>
   (\<forall>data c. fs fileName = Some data \<and> snd (Unmarshal data c) \<longrightarrow>
      readConfig fs fileName = Inr None \<and> readConfig2 fs fileName = Inr None)"
proof (intro conjI impI allI)
  assume "fs fileName = None"
  then show "readConfig fs fileName = Inl Exit" by (simp add: readConfig_def)
next
  assume "fs fileName = None"
  then show "readConfig2 fs fileName = Inl Exit" by (simp add: readConfig2_def)
next
  fix data c
  assume a: "fs fileName = Some data \<and> snd (Unmarshal data c)"
  let ?d = "\<lparr>ChatServerFQDN = defaultHTTPChatServer, ChatServerPort = defaultHTTPChatPort,
            WebServerPortNumber = defaultWebServerPortNumber\<rparr>"
  from a have "snd (Unmarshal data ?d)"
    using Unmarshal_err [of data c ?d] by simp
  with a show "readConfig fs fileName = Inr None"
    by (cases "Unmarshal data ?d") (simp add: readConfig_def)
next
  fix data c
  assume a: "fs fileName = Some data \<and> snd (Unmarshal data c)"
  let ?z = "\<lparr>ChatServerFQDN = '''', ChatServerPort = 0, WebServerPortNumber = 0\<rparr>"
  from a have "snd (Unmarshal data ?z)"
    using Unmarshal_err [of data c ?z] by simp
  with a show "readConfig2 fs fileName = Inr None"
    by (cases "Unmarshal data ?z") (simp add: readConfig2_def)
qed

theorem readConfig_failure_witness:
  "readConfig demoFiles ''missing.cfg'' = Inl Exit \<and>
   readConfig2 demoFiles ''missing.cfg'' = Inl Exit \<and>
   readConfig demoFiles ''broken.cfg'' = Inr None \<and>
   readConfig2 demoFiles ''broken.cfg'' = Inr None"
proof -
  have a: "demoFiles ''missing.cfg'' = None"
    by (simp add: demoFiles_def)
  have b: "demoFiles ''broken.cfg'' = Some Malformed \<and> snd (Unmarshal Malformed demoConfig)"
    by (simp add: demoFiles_def)
  show ?thesis
    using readConfig_failure [of demoFiles "''missing.cfg''"]
      readConfig_failure [of demoFiles "''broken.cfg''"] a b
    by blast
qed

text \<open>
  The claim as stated fails: for a missing file and for a malformed one the result is
  not the configuration of the three defaults.
\<close>

theorem readConfig_failure_counterexample:
  "readConfig demoFiles ''missing.cfg'' \<noteq>
     Inr (Some \<lparr>ChatServerFQDN = ''chat.server.net'', ChatServerPort = 8080,
                WebServerPortNumber = 99\<rparr>) \<and>
   readConfig demoFiles ''broken.cfg'' \<noteq>
     Inr (Some \<lparr>ChatServerFQDN = ''chat.server.net'', ChatServerPort = 8080,
                WebServerPortNumber = 99\<rparr>)"
  by (simp add: readConfig_def demoFiles_def)

text \<open>
  \<^verbatim>\<open>readConfig\<close> of the package \<^verbatim>\<open>pkg/client\<close> does fall back on a read error, and
  returns nil on a parse error like the others.
\<close>

lemma client_readConfig_unreadable:
  "fs fileName = None \<Longrightarrow>
   client_readConfig fs fileName =
     Inr (Some \<lparr>ChatServerFQDN = ''chat.server.net'', ChatServerPort = 8080,
                WebServerPortNumber = 99\<rparr>)"
  by (simp add: client_readConfig_def defaultHTTPChatServer_def defaultHTTPChatPort_def
      defaultWebServerPortNumber_def)

lemma client_readConfig_unparsable:
  "fs fileName = Some Malformed \<Longrightarrow> client_readConfig fs fileName = Inr None"
  by (simp add: client_readConfig_def)

text \<open>
  A file with the remote port alone keeps that port unless it is zero, and a
  configuration that \<^verbatim>\<open>readConfig\<close> returns has no empty host and no zero port.
\<close>

lemma readConfig_port_only:
  assumes "- (2 ^ 63) \<le> n" and "n < 2 ^ 63"
  shows "readConfig [f \<mapsto> Document (JObject [(''chat-server-port'', JInt n)])] f =
     Inr (Some \<lparr>ChatServerFQDN = ''chat.server.net'',
                ChatServerPort = (if n = 0 then 8080 else n),
                WebServerPortNumber = 99\<rparr>)"
  using assms
  by (simp add: readConfig_def lowerASCII_def Let_def defaultHTTPChatServer_def
      defaultHTTPChatPort_def defaultWebServerPortNumber_def)

lemma readConfig_never_zero:
  assumes "readConfig fs fileName = Inr (Some c)"
  shows "ChatServerFQDN c \<noteq> '''' \<and> ChatServerPort c \<noteq> 0 \<and> WebServerPortNumber c \<noteq> 0"
  using assms
  by (auto simp: readConfig_def Let_def defaultHTTPChatServer_def defaultHTTPChatPort_def
      defaultWebServerPortNumber_def split: option.splits prod.splits bool.splits if_splits)

section \<open>Properties of the users view\<close>

lemma rangeUsers_zip:
  "rangeUsers ts k (map Some us) acc =
     Inr (acc @ map (\<lambda>(i, u). ''('' @ Sprintf_d (int i) @ '')['' @ ts (LastPing u) @ ''] ''
                                @ User.Username u)
                  (zip [k..<k + length us] us))"
proof (induction us arbitrary: k acc)
  case Nil
  show ?case by simp
next
  case (Cons u us)
  have "[k..<k + Suc (length us)] = k # [Suc k..<Suc k + length us]"
    by (subst upt_rec) simp
  with Cons.IH [of "Suc k"] show ?case by simp
qed

lemma rangeUsers_nth:
  "rangeUsers ts 0 (map Some us) [] =
     Inr (map (\<lambda>i. ''('' @ Sprintf_d (int i) @ '')['' @ ts (LastPing (us ! i)) @ ''] ''
                      @ User.Username (us ! i))
              [0..<length us])"
  unfolding rangeUsers_zip
  by (simp, rule nth_equalityI) simp_all

lemma rangeUsers_nil_entry:
  "None \<in> set us \<Longrightarrow> rangeUsers ts k us acc = Inl Panic"
proof (induction us arbitrary: k acc)
  case Nil
  then show ?case by simp
next
  case (Cons u us)
  then show ?case by (cases u) auto
qed

text \<open>
  C7, as amended. When \<^verbatim>\<open>getActiveUsers\<close> returns a list without nil entries, the
  handler of the first variant writes one line per user, the line at position \<open>i\<close>
  being \<^verbatim>\<open>(i)[lastPing] username\<close> of the user at position \<open>i\<close> (counting from 0),
  the lines joined by \<^verbatim>\<open><br/>\<close>: every user once, in the order received, with the
  time of the last ping between the index and the name.
\<close>

theorem handlerGetUsers_renders_in_order:
  assumes "getActiveUsers w = (w', Inr (map Some users))"
  shows "handlerGetUsers ts w =
     (w', Inr (Written (
        ''<!doctype html><html itemscope=\"\" itemtype=\"http://schema.org/WebPage\" lang=\"en\">\<newline>''
        @ [CHR 0x09] @ ''<head><title>smirc: users</title><meta http-equiv=\"refresh\" content=\"5\"></head>\<newline>    <body><strong>Users:</strong><br/> ''
        @ Join (map (\<lambda>i. ''('' @ Sprintf_d (int i) @ '')['' @ ts (LastPing (users ! i))
                              @ ''] '' @ User.Username (users ! i))
                    [0..<length users]) ''<br/>''
        @ ''</body></html>'')))"
  using assms
  by (simp add: handlerGetUsers_def rangeUsers_nth)

lemma demo_getActiveUsers:
  "getActiveUsers demoWorld = (fst (getActiveUsers demoWorld), Inr (map Some demoUsers))"
  by (simp add: getActiveUsers_def Get_def roundTrip_def demoWorld_def demoBackend_def
      demoBody_def Let_def)

theorem handlerGetUsers_renders_in_order_witness:
  "snd (handlerGetUsers demoTimeString demoWorld) =
     Inr (Written (
        ''<!doctype html><html itemscope=\"\" itemtype=\"http://schema.org/WebPage\" lang=\"en\">\<newline>''
        @ [CHR 0x09] @ ''<head><title>smirc: users</title><meta http-equiv=\"refresh\" content=\"5\"></head>\<newline>    <body><strong>Users:</strong><br/> ''
        @ ''(0)[0001-01-01 00:00:00 +0000 UTC] alice<br/>(1)[0001-01-01 00:00:00 +0000 UTC] bob''
        @ ''</body></html>''))"
  using handlerGetUsers_renders_in_order [OF demo_getActiveUsers, of demoTimeString]
  by (simp add: demoUsers_def demoTimeString_def Sprintf_d_0 Sprintf_d_1)

text \<open>
  The claim as stated fails: whatever \<^verbatim>\<open>Time.String\<close> prints, the document for the
  users alice and bob is not the one with the lines \<^verbatim>\<open>(0) alice\<close> and \<^verbatim>\<open>(1) bob\<close>.
\<close>

theorem handlerGetUsers_format_counterexample:
  "\<forall>ts. snd (handlerGetUsers ts demoWorld) \<noteq>
     Inr (Written (
        ''<!doctype html><html itemscope=\"\" itemtype=\"http://schema.org/WebPage\" lang=\"en\">\<newline>''
        @ [CHR 0x09] @ ''<head><title>smirc: users</title><meta http-equiv=\"refresh\" content=\"5\"></head>\<newline>    <body><strong>Users:</strong><br/> ''
        @ ''(0) alice<br/>(1) bob''
        @ ''</body></html>''))"
  by (simp add: handlerGetUsers_def getActiveUsers_def Get_def roundTrip_def demoWorld_def
      demoBackend_def demoBody_def demoUsers_def Let_def Sprintf_d_0 Sprintf_d_1)

text \<open>A nil entry in the list makes the handler panic.\<close>

lemma handlerGetUsers_nil_entry:
  assumes "getActiveUsers w = (w', Inr us)" and "None \<in> set us"
  shows "handlerGetUsers ts w = (w', Inl Panic)"
  using assms by (simp add: handlerGetUsers_def rangeUsers_nil_entry)

text \<open>
  The handler of the package \<^verbatim>\<open>pkg/client\<close> writes the lines \<^verbatim>\<open>(i) username\<close>.
\<close>

lemma client_rangeUsers_zip:
  "client_rangeUsers k (map Some us) acc =
     Inr (acc @ map (\<lambda>(i, u). ''('' @ Sprintf_d (int i) @ '') '' @ User.Username u)
                  (zip [k..<k + length us] us))"
proof (induction us arbitrary: k acc)
  case Nil
  show ?case by simp
next
  case (Cons u us)
  have "[k..<k + Suc (length us)] = k # [Suc k..<Suc k + length us]"
    by (subst upt_rec) simp
  with Cons.IH [of "Suc k"] show ?case by simp
qed

lemma client_rangeUsers_nth:
  "client_rangeUsers 0 (map Some us) [] =
     Inr (map (\<lambda>i. ''('' @ Sprintf_d (int i) @ '') '' @ User.Username (us ! i))
              [0..<length us])"
  unfolding client_rangeUsers_zip
  by (simp, rule nth_equalityI) simp_all

lemma HandlerGetUsers_renders_in_order:
  assumes "client_getActiveUsers w = (w', Inr (map Some users))"
  shows "HandlerGetUsers staticCSS w =
     (w', Inr (Written (
        ''<!doctype html><html itemscope=\"\" itemtype=\"http://schema.org/WebPage\" lang=\"en\">\<newline>''
        @ [CHR 0x09] @ ''<head><title>http-chat-client: users</title><meta http-equiv=\"refresh\" content=\"5\">''
        @ ''<style type=\"text/css\">'' @ staticCSS @ ''</style>''
        @ ''</head>\<newline>    <body><div><strong>Users:</strong><br/> ''
        @ Join (map (\<lambda>i. ''('' @ Sprintf_d (int i) @ '') '' @ User.Username (users ! i))
                    [0..<length users]) ''<br/>''
        @ ''</div></body></html>'')))"
  using assms
  by (simp add: HandlerGetUsers_def client_rangeUsers_nth getCSS_def)

section \<open>The package variables after start-up\<close>

lemma serveMux_globals:
  "cfg (fst (serveMux ts path r w)) = cfg w \<and>
   envVarUserName (fst (serveMux ts path r w)) = envVarUserName w"
  by (simp add: serveMux_def handlerGetMessages_world getMessages_world Get_world
      handlerGetUsers_world getActiveUsers_world handlerSendMessage_world sendMessage_world
      Post_world handlerIndex_world split: option.splits)

lemma sendPing_globals:
  "cfg (fst (sendPing w)) = cfg w \<and> envVarUserName (fst (sendPing w)) = envVarUserName w"
  by (simp add: sendPing_world Post_world split: option.splits)

text \<open>
  C9. Whatever requests and ticks follow start-up, in whatever order, the
  configuration and the local identity stay what they were: no handler and no
  heartbeat writes them.
\<close>

theorem globals_never_written:
  "cfg (fst (run ts es w)) = cfg w \<and> envVarUserName (fst (run ts es w)) = envVarUserName w"
proof (induction ts es w rule: run.induct)
  case (1 ts w)
  show ?case by simp
next
  case (2 ts path r es w)
  then show ?case by (simp add: serveMux_globals)
next
  case (3 ts es w)
  obtain w' res where sp: "sendPing w = (w', res)"
    by (cases "sendPing w")
  have g: "cfg w' = cfg w \<and> envVarUserName w' = envVarUserName w"
    using sendPing_globals [of w] sp by simp
  show ?case
  proof (cases res)
    case (Inl f)
    with sp g show ?thesis by simp
  next
    case (Inr u)
    with sp g "3.IH" [of w' res u] show ?thesis by simp
  qed
next
  case (4 ts t es w)
  then show ?case by simp
qed

text \<open>
  Start-up itself writes both once: a state that start-up reaches has a configuration
  and the identity of the environment variable, which is not empty.
\<close>

lemma startup_globals:
  assumes "startup getenv fs now net = Inr w"
  shows "cfg w \<noteq> None \<and> envVarUserName w = getenv envVarUserNameKey \<and> envVarUserName w \<noteq> ''''"
  using assms
  by (auto simp: startup_def split: if_splits sum.splits option.splits)

end
